theory Spec2Isabelle
  imports Complex_Main
begin

section \<open>Exceptions\<close>

text \<open>
  The exceptions of the Python source that the modelled functions raise. A function that
  may raise returns \<open>py_error + 'a\<close>, with \<open>Inl\<close> for the exception.
\<close>

datatype py_error =
    ValueError
  | FileNotFoundError
  | ZeroDivisionError
  | OverflowError
  | UnicodeError
  | InvalidToken
  | OSError
  | OtherError string


section \<open>The adaptive delay controller (src/downloader.py, class RateLimiter)\<close>

text \<open>
  Python's \<open>float\<close> fields are modelled as \<open>real\<close>: the comparisons, \<open>min\<close> and
  \<open>max\<close> of the source are the ones of the model, the products are exact (rounding is
  not modelled). The two counters are Python integers, which are unbounded.
\<close>

record rate_limiter =
  base_delay :: real
  min_delay :: real
  max_delay :: real
  current_delay :: real
  error_count :: int
  success_count :: int

text \<open>\<open>RateLimiter.__init__(base_delay, min_delay, max_delay)\<close>.\<close>

definition RateLimiter :: "real \<Rightarrow> real \<Rightarrow> real \<Rightarrow> rate_limiter" where
  "RateLimiter b mn mx =
     \<lparr>base_delay = b, min_delay = mn, max_delay = mx, current_delay = b,
      error_count = 0, success_count = 0\<rparr>"

text \<open>
  \<open>RateLimiter.wait\<close> changes no field. What it does is sleep: the model returns the
  arguments of its \<open>time.sleep\<close> calls in order; \<open>time.sleep\<close> raises \<open>ValueError\<close>
  on a negative argument. \<open>int(delay)\<close> truncates, which on \<open>delay > 1\<close> is the floor.
\<close>

definition wait :: "rate_limiter \<Rightarrow> py_error + real list" where
  "wait s =
     (let delay = max (min_delay s) (min (current_delay s) (max_delay s)) in
      if delay \<le> 1 then (if delay < 0 then Inl ValueError else Inr [delay])
      else
        let whole = nat \<lfloor>delay\<rfloor>;
            remainder = delay - real whole
        in Inr (replicate whole 1 @ (if remainder > 0 then [remainder] else [])))"

definition on_success :: "rate_limiter \<Rightarrow> rate_limiter" where
  "on_success s =
     (let s1 = s\<lparr>error_count := 0\<rparr>;
          s2 = s1\<lparr>success_count := success_count s1 + 1\<rparr>
      in if success_count s2 \<ge> 10
         then s2\<lparr>current_delay := max (min_delay s2) (current_delay s2 * 0.9),
                 success_count := 0\<rparr>
         else s2)"

definition on_error :: "bool \<Rightarrow> rate_limiter \<Rightarrow> rate_limiter" where
  "on_error is_rate_limit s =
     (let s1 = s\<lparr>success_count := 0\<rparr>;
          s2 = s1\<lparr>error_count := error_count s1 + 1\<rparr>
      in if is_rate_limit
         then s2\<lparr>current_delay := min (max_delay s2) (current_delay s2 * 2.0)\<rparr>
         else s2\<lparr>current_delay := min (max_delay s2) (current_delay s2 * 1.2)\<rparr>)"

definition reset :: "rate_limiter \<Rightarrow> rate_limiter" where
  "reset s = s\<lparr>current_delay := base_delay s, error_count := 0, success_count := 0\<rparr>"

text \<open>
  The operations of the class, and the state a limiter is in after a call. \<open>wait\<close>
  assigns no field, so the state after it is the state before it, whether it raised or not.
\<close>

datatype rl_op = Wait | OnSuccess | OnError bool | Reset

fun apply_op :: "rate_limiter \<Rightarrow> rl_op \<Rightarrow> rate_limiter" where
  "apply_op s Wait = s"
| "apply_op s OnSuccess = on_success s"
| "apply_op s (OnError b) = on_error b s"
| "apply_op s Reset = reset s"

definition run_ops :: "rate_limiter \<Rightarrow> rl_op list \<Rightarrow> rate_limiter" where
  "run_ops s ops = foldl apply_op s ops"

definition delay_in_bounds :: "rate_limiter \<Rightarrow> bool" where
  "delay_in_bounds s \<longleftrightarrow> min_delay s \<le> current_delay s \<and> current_delay s \<le> max_delay s"

section \<open>Exponential backoff (src/utils.py, calculate_rate_limit_delay)\<close>

text \<open>
  \<open>multiplier ** error_count\<close> with a \<open>float\<close> base and an \<open>int\<close> exponent. Python
  raises \<open>ZeroDivisionError\<close> for a zero base with a negative exponent and
  \<open>OverflowError\<close> when the power leaves the range of a double, whose finite values lie
  below \<open>2 ^ 1024\<close>; a power that underflows is returned. The value itself is the exact
  power, as for the other float operations.
\<close>

definition float_pow :: "real \<Rightarrow> int \<Rightarrow> py_error + real" where
  "float_pow x n =
     (if x = 0 \<and> n < 0 then Inl ZeroDivisionError
      else if \<bar>x powi n\<bar> \<ge> 2 ^ 1024 then Inl OverflowError
      else Inr (x powi n))"

text \<open>
  The arguments are \<open>error_count\<close>, \<open>base_delay\<close>, \<open>multiplier\<close> and \<open>max_delay\<close>,
  in the order of the source.
\<close>

definition calculate_rate_limit_delay :: "int \<Rightarrow> real \<Rightarrow> real \<Rightarrow> real \<Rightarrow> py_error + real" where
  "calculate_rate_limit_delay errors base multiplier maximum =
     (case float_pow multiplier errors of
        Inl e \<Rightarrow> Inl e
      | Inr p \<Rightarrow> (let delay = base * p in Inr (min delay maximum)))"

text \<open>The call with the defaults of the signature: 3.0, 1.5 and 300.0.\<close>

definition calculate_rate_limit_delay_default :: "int \<Rightarrow> py_error + real" where
  "calculate_rate_limit_delay_default errors = calculate_rate_limit_delay errors 3.0 1.5 300.0"


section \<open>Strings\<close>

text \<open>
  A Python \<open>str\<close> is a sequence of Unicode code points: the model is a list of natural
  numbers, and \<open>len\<close> is \<open>length\<close>. \<open>ustr\<close> reads an ASCII literal as such a string.
\<close>

type_synonym str = "nat list"

definition ustr :: "string \<Rightarrow> str" where
  "ustr s = map of_char s"

text \<open>
  The characters that \<open>str.strip()\<close> removes are those for which \<open>str.isspace\<close> holds:
  U+0009 to U+000D, U+001C to U+001F, U+0020, U+0085, U+00A0, U+1680, U+2000 to U+200A,
  U+2028, U+2029, U+202F, U+205F and U+3000.
\<close>

definition isspace :: "nat \<Rightarrow> bool" where
  "isspace c \<longleftrightarrow>
     (9 \<le> c \<and> c \<le> 13) \<or> (28 \<le> c \<and> c \<le> 32) \<or> c = 133 \<or> c = 160 \<or> c = 5760 \<or>
     (8192 \<le> c \<and> c \<le> 8202) \<or> c = 8232 \<or> c = 8233 \<or> c = 8239 \<or> c = 8287 \<or> c = 12288"

text \<open>\<open>s.strip(chars)\<close> removes the characters of a set at both ends; \<open>s.strip()\<close> removes white space.\<close>

definition strip_where :: "(nat \<Rightarrow> bool) \<Rightarrow> str \<Rightarrow> str" where
  "strip_where P s = rev (dropWhile P (rev (dropWhile P s)))"

definition strip :: "str \<Rightarrow> str" where
  "strip s = strip_where isspace s"

definition startswith :: "str \<Rightarrow> str \<Rightarrow> bool" where
  "startswith s p \<longleftrightarrow> take (length p) s = p"

definition endswith :: "str \<Rightarrow> str \<Rightarrow> bool" where
  "endswith s p \<longleftrightarrow> length p \<le> length s \<and> drop (length s - length p) s = p"

text \<open>\<open>p in s\<close> for strings: \<open>p\<close> occurs in \<open>s\<close>.\<close>

fun contains :: "str \<Rightarrow> str \<Rightarrow> bool" where
  "contains [] p = (p = [])"
| "contains (c # cs) p = (startswith (c # cs) p \<or> contains cs p)"

text \<open>
  \<open>s.split(sep)\<close> cuts \<open>s\<close> at every occurrence of \<open>sep\<close>, found from left to right.
  The source calls it with non-empty literals only (Python raises on an empty separator;
  the model then returns \<open>s\<close> uncut). \<open>split_from sep acc s\<close> has read the current piece
  \<open>acc\<close>, kept in reverse.
\<close>

function split_from :: "str \<Rightarrow> str \<Rightarrow> str \<Rightarrow> str list" where
  "split_from sep acc [] = [rev acc]"
| "split_from sep acc (c # cs) =
     (if sep \<noteq> [] \<and> startswith (c # cs) sep
      then rev acc # split_from sep [] (drop (length sep) (c # cs))
      else split_from sep (c # acc) cs)"
  by pat_completeness auto
termination
  by (relation "measure (\<lambda>(sep, acc, s). length s)") (auto simp: neq_Nil_conv)

definition split :: "str \<Rightarrow> str \<Rightarrow> str list" where
  "split s sep = split_from sep [] s"

text \<open>
  \<open>str.lower()\<close> on the letters \<open>A\<close> to \<open>Z\<close>. The source lowers a string only after
  the regular expression of \<open>validate_username\<close> has matched it, so every character it
  meets is ASCII, where \<open>str.lower()\<close> changes these letters and nothing else.
\<close>

definition lower :: "str \<Rightarrow> str" where
  "lower s = map (\<lambda>c. if 65 \<le> c \<and> c \<le> 90 then c + 32 else c) s"

section \<open>User names (src/utils.py)\<close>

text \<open>The character class \<open>[a-zA-Z0-9._]\<close>.\<close>

definition username_char :: "nat \<Rightarrow> bool" where
  "username_char c \<longleftrightarrow>
     (97 \<le> c \<and> c \<le> 122) \<or> (65 \<le> c \<and> c \<le> 90) \<or> (48 \<le> c \<and> c \<le> 57) \<or> c = 46 \<or> c = 95"

text \<open>
  \<open>re.match(r'^[a-zA-Z0-9._]+$', s)\<close>: one or more characters of the class from the
  start of \<open>s\<close>, then \<open>$\<close>, which matches at the end of the string and also just before a
  line feed that ends the string.
\<close>

definition re_match_username :: "str \<Rightarrow> bool" where
  "re_match_username s \<longleftrightarrow>
     takeWhile username_char s \<noteq> [] \<and>
     (dropWhile username_char s = [] \<or> dropWhile username_char s = [10])"

definition validate_username :: "str \<Rightarrow> py_error + str" where
  "validate_username username0 =
     (if username0 = [] then Inl ValueError
      else
        let username = strip username0 in
        if length username < 1 \<or> length username > 30 then Inl ValueError
        else if \<not> re_match_username username then Inl ValueError
        else if startswith username (ustr ''.'') then Inl ValueError
        else if endswith username (ustr ''.'') then Inl ValueError
        else Inr (lower username))"

text \<open>
  \<open>urllib.parse.urlparse\<close> belongs to the standard library: the \<open>path\<close> component it
  finds in a URL is a parameter of the model, \<open>None\<close> when \<open>urlparse\<close> rejects the URL
  (with \<open>ValueError\<close>, the one exception it raises on a string).
\<close>

type_synonym urlparse_path = "str \<Rightarrow> str option"

definition extract_username_from_url :: "urlparse_path \<Rightarrow> str \<Rightarrow> py_error + str" where
  "extract_username_from_url urlparse_path url0 =
     (let url = strip url0 in
      if \<not> startswith url (ustr ''http'') \<and> \<not> startswith url (ustr ''@'') \<and>
         \<not> contains url (ustr ''/'')
      then validate_username url
      else if startswith url (ustr ''@'') then validate_username (drop 1 url)
      else
        let from_path =
          (if startswith url (ustr ''http'') then
             (case urlparse_path url of
                None \<Rightarrow> Some (Inl ValueError)
              | Some p \<Rightarrow>
                  (let path = strip_where (\<lambda>c. c = 47) p in
                   if path \<noteq> [] then Some (validate_username (hd (split path (ustr ''/''))))
                   else None))
           else None)
        in case from_path of
          Some r \<Rightarrow> r
        | None \<Rightarrow>
            (if contains url (ustr ''instagram.com'') then
               (let parts = split url (ustr ''instagram.com/'') in
                if length parts > 1 then
                  (let username = hd (split (parts ! 1) (ustr ''/'')) in
                   if username \<noteq> [] then validate_username username else Inl ValueError)
                else Inl ValueError)
             else Inl ValueError))"

section \<open>Profile list files (src/utils.py, parse_profile_list_file)\<close>






text \<open>
  What the claim about \<open>parse_profile_list_file\<close> says of a file, in its words: the lines
  that are skipped, the user names of the lines that remain and yield one, in file order,
  and the (1-based) numbers of the lines that remain and yield none.
\<close>

definition skipped_line :: "str \<Rightarrow> bool" where
  "skipped_line l \<longleftrightarrow> strip l = [] \<or> startswith (strip l) (ustr ''#'')"

definition valid_profiles :: "urlparse_path \<Rightarrow> str list \<Rightarrow> str list" where
  "valid_profiles up lines =
     concat (map (\<lambda>l. if skipped_line l then []
                       else (case extract_username_from_url up l of
                               Inr username \<Rightarrow> [username] | Inl e \<Rightarrow> [])) lines)"

definition invalid_line_numbers :: "urlparse_path \<Rightarrow> nat \<Rightarrow> str list \<Rightarrow> nat list" where
  "invalid_line_numbers up n lines =
     map fst (filter (\<lambda>(k, l). \<not> skipped_line l \<and> isl (extract_username_from_url up l))
                (List.enumerate n lines))"

section \<open>Batch downloads (src/batch.py, class BatchDownloader)\<close>
















section \<open>Session encryption (src/auth.py, class SessionEncryption)\<close>

text \<open>
  The class wraps library code: the UTF-8 codec of \<open>str.encode()\<close> and
  \<open>bytes.decode()\<close>, the Latin-1 codec, \<open>hashlib.pbkdf2_hmac\<close>,
  \<open>base64.urlsafe_b64encode\<close> and \<open>cryptography.fernet.Fernet\<close>. The model takes the
  library as a parameter: a record of functions over a type \<open>'b\<close> of byte strings.
  \<open>fernet_valid_key\<close> says whether \<open>Fernet(key)\<close> accepts a key (it raises
  \<open>ValueError\<close> unless the key is the url-safe base64 encoding of 32 bytes); the
  \<open>Fernet\<close> object is represented by the key it holds. \<open>Fernet.encrypt\<close> draws an
  initialisation vector and reads the clock: what it draws has type \<open>'r\<close>.
\<close>

record ('b, 'r) crypto_lib =
  str_encode :: "str \<Rightarrow> py_error + 'b"
  bytes_decode :: "'b \<Rightarrow> py_error + str"
  latin1_decode :: "'b \<Rightarrow> str"
  bytes_literal :: "string \<Rightarrow> 'b"
  pbkdf2_hmac :: "string \<Rightarrow> 'b \<Rightarrow> 'b \<Rightarrow> nat \<Rightarrow> 'b"
  urlsafe_b64encode :: "'b \<Rightarrow> 'b"
  fernet_valid_key :: "'b \<Rightarrow> bool"
  fernet_encrypt :: "'b \<Rightarrow> 'r \<Rightarrow> 'b \<Rightarrow> 'b"
  fernet_decrypt :: "'b \<Rightarrow> 'b \<Rightarrow> py_error + 'b"

text \<open>\<open>os.getenv\<close>: the environment maps a name to its value, if it is set.\<close>

type_synonym environ = "str \<Rightarrow> str option"

text \<open>\<open>os.getenv(name) or fallback\<close>: an unset and an empty variable both give the fallback.\<close>

definition getenv_or :: "environ \<Rightarrow> str \<Rightarrow> str \<Rightarrow> str" where
  "getenv_or env name fallback =
     (case env name of None \<Rightarrow> fallback | Some v \<Rightarrow> if v \<noteq> [] then v else fallback)"

record 'b session_encryption =
  key :: 'b
  fernet :: 'b

text \<open>
  \<open>SessionEncryption._derive_key(password)\<close>. With no password, a non-empty
  \<open>SESSION_ENCRYPTION_KEY\<close> is returned at once, encoded; otherwise the password becomes
  \<open>ig_downloader_<user>_secret\<close>, and the code below the \<open>if\<close> derives the key from it.
\<close>

definition derive_key :: "('b, 'r) crypto_lib \<Rightarrow> environ \<Rightarrow> str option \<Rightarrow> py_error + 'b" where
  "derive_key lib env password0 =
     (let early =
        (case password0 of
           None \<Rightarrow>
             (case env (ustr ''SESSION_ENCRYPTION_KEY'') of
                Some env_key \<Rightarrow>
                  if env_key \<noteq> [] then Inl (str_encode lib env_key)
                  else
                    Inr (ustr ''ig_downloader_'' @
                         getenv_or env (ustr ''USER'') (getenv_or env (ustr ''USERNAME'') (ustr ''default'')) @
                         ustr ''_secret'')
              | None \<Rightarrow>
                  Inr (ustr ''ig_downloader_'' @
                       getenv_or env (ustr ''USER'') (getenv_or env (ustr ''USERNAME'') (ustr ''default'')) @
                       ustr ''_secret''))
         | Some p \<Rightarrow> Inr p)
      in case early of
        Inl returned \<Rightarrow> returned
      | Inr password \<Rightarrow>
          (case str_encode lib password of
             Inl e \<Rightarrow> Inl e
           | Inr password_bytes \<Rightarrow>
               (let kdf_salt = bytes_literal lib ''instagram_downloader_salt_v1'';
                    k = pbkdf2_hmac lib ''sha256'' password_bytes kdf_salt 100000
                in Inr (urlsafe_b64encode lib k))))"

text \<open>\<open>SessionEncryption.__init__(password)\<close>.\<close>

definition SessionEncryption ::
  "('b, 'r) crypto_lib \<Rightarrow> environ \<Rightarrow> str option \<Rightarrow> py_error + 'b session_encryption" where
  "SessionEncryption lib env password =
     (case derive_key lib env password of
        Inl e \<Rightarrow> Inl e
      | Inr k \<Rightarrow> if fernet_valid_key lib k then Inr \<lparr>key = k, fernet = k\<rparr> else Inl ValueError)"

definition encrypt :: "('b, 'r) crypto_lib \<Rightarrow> 'b session_encryption \<Rightarrow> 'r \<Rightarrow> str \<Rightarrow> py_error + 'b" where
  "encrypt lib se r data =
     (case str_encode lib data of
        Inl e \<Rightarrow> Inl e
      | Inr bytes \<Rightarrow> Inr (fernet_encrypt lib (fernet se) r bytes))"

definition decrypt :: "('b, 'r) crypto_lib \<Rightarrow> 'b session_encryption \<Rightarrow> 'b \<Rightarrow> py_error + str" where
  "decrypt lib se encrypted_data =
     (case fernet_decrypt lib (fernet se) encrypted_data of
        Inl e \<Rightarrow> Inl e
      | Inr bytes \<Rightarrow> bytes_decode lib bytes)"

text \<open>
  The key derivation in the words of the claim: PBKDF2-HMAC-SHA256 of the encoded
  passphrase with the fixed salt and 100000 iterations, url-safe base64 encoded; and the
  passphrase made from the machine's user name.
\<close>

definition pbkdf2_key :: "('b, 'r) crypto_lib \<Rightarrow> str \<Rightarrow> py_error + 'b" where
  "pbkdf2_key lib passphrase =
     (case str_encode lib passphrase of
        Inl e \<Rightarrow> Inl e
      | Inr bytes \<Rightarrow>
          Inr (urlsafe_b64encode lib
                 (pbkdf2_hmac lib ''sha256'' bytes
                    (bytes_literal lib ''instagram_downloader_salt_v1'') 100000)))"

definition machine_passphrase :: "environ \<Rightarrow> str" where
  "machine_passphrase env =
     ustr ''ig_downloader_'' @
     (case env (ustr ''USER'') of
        Some u \<Rightarrow> if u \<noteq> [] then u
                  else (case env (ustr ''USERNAME'') of
                          Some v \<Rightarrow> if v \<noteq> [] then v else ustr ''default''
                        | None \<Rightarrow> ustr ''default'')
      | None \<Rightarrow> (case env (ustr ''USERNAME'') of
                   Some v \<Rightarrow> if v \<noteq> [] then v else ustr ''default''
                 | None \<Rightarrow> ustr ''default'')) @
     ustr ''_secret''"

text \<open>What the round trip asks of the library: the contracts of Fernet and of the codec.\<close>

definition fernet_round_trip :: "('b, 'r) crypto_lib \<Rightarrow> bool" where
  "fernet_round_trip lib \<longleftrightarrow>
     (\<forall>k r bytes. fernet_valid_key lib k \<longrightarrow>
        fernet_decrypt lib k (fernet_encrypt lib k r bytes) = Inr bytes)"

definition codec_round_trip :: "('b, 'r) crypto_lib \<Rightarrow> bool" where
  "codec_round_trip lib \<longleftrightarrow>
     (\<forall>s bytes. str_encode lib s = Inr bytes \<longrightarrow> bytes_decode lib bytes = Inr s)"

subsection \<open>A symbolic library\<close>

text \<open>
  An instance of the library on which the model can be run: byte strings are terms that
  record how they were made, so two byte strings are equal only when they were made the
  same way. The codec refuses the surrogate code points U+D800 to U+DFFF, as UTF-8 does.
\<close>

datatype sym_bytes =
    Utf8 str
  | Literal string
  | Pbkdf2 string sym_bytes sym_bytes nat
  | B64 sym_bytes
  | Token sym_bytes nat sym_bytes

definition surrogate :: "nat \<Rightarrow> bool" where
  "surrogate c \<longleftrightarrow> 55296 \<le> c \<and> c \<le> 57343"

text \<open>
  \<open>Fernet(key)\<close> passes the key to \<open>base64.urlsafe_b64decode\<close> and accepts it when
  that returns 32 bytes. The decoder reads the characters \<open>A-Z\<close>, \<open>a-z\<close>, \<open>0-9\<close>,
  \<open>+\<close>, \<open>/\<close>, \<open>-\<close> and \<open>_\<close> in groups of four and skips any other character but
  \<open>=\<close>. \<open>quad_pos\<close> is the position in the group, \<open>pads\<close> the number of \<open>=\<close> seen
  since the last character read at a position where padding may stand, \<open>emitted\<close> the
  number of bytes decoded. Padding that completes a group ends the reading, whatever
  follows; input that ends inside a group is an error.
\<close>

definition b64_char :: "nat \<Rightarrow> bool" where
  "b64_char c \<longleftrightarrow>
     (65 \<le> c \<and> c \<le> 90) \<or> (97 \<le> c \<and> c \<le> 122) \<or> (48 \<le> c \<and> c \<le> 57) \<or>
     c = 43 \<or> c = 47 \<or> c = 45 \<or> c = 95"

fun b64_scan :: "nat \<Rightarrow> nat \<Rightarrow> nat \<Rightarrow> str \<Rightarrow> nat option" where
  "b64_scan quad_pos pads emitted [] = (if quad_pos = 0 then Some emitted else None)"
| "b64_scan quad_pos pads emitted (c # cs) =
     (if c = 61 then
        (if quad_pos \<ge> 2 \<and> quad_pos + (pads + 1) \<ge> 4 then Some emitted
         else b64_scan quad_pos (if quad_pos \<ge> 2 then pads + 1 else pads) emitted cs)
      else if \<not> b64_char c then b64_scan quad_pos pads emitted cs
      else if quad_pos = 0 then b64_scan 1 0 emitted cs
      else if quad_pos = 3 then b64_scan 0 0 (emitted + 1) cs
      else b64_scan (quad_pos + 1) 0 (emitted + 1) cs)"

text \<open>
  The number of bytes of a term. A code point takes one to four bytes in UTF-8; a key
  derivation returns as many bytes as its hash function (the class uses \<open>sha256\<close>);
  base64 writes four characters for every three bytes, padded; a Fernet token is the
  base64 text of a version byte, 8 bytes of time, 16 of initialisation vector, the
  plaintext padded to the next multiple of 16, and 32 bytes of HMAC.
\<close>

definition utf8_len :: "nat \<Rightarrow> nat" where
  "utf8_len c = (if c < 128 then 1 else if c < 2048 then 2 else if c < 65536 then 3 else 4)"

definition digest_size :: "string \<Rightarrow> nat" where
  "digest_size h =
     (if h = ''sha256'' then 32 else if h = ''sha1'' then 20 else if h = ''sha224'' then 28
      else if h = ''sha384'' then 48 else if h = ''sha512'' then 64 else if h = ''md5'' then 16
      else 0)"

fun sym_length :: "sym_bytes \<Rightarrow> nat" where
  "sym_length (Utf8 s) = sum_list (map utf8_len s)"
| "sym_length (Literal s) = length s"
| "sym_length (Pbkdf2 h p s n) = digest_size h"
| "sym_length (B64 b) = 4 * ((sym_length b + 2) div 3)"
| "sym_length (Token k r p) = 4 * ((57 + 16 * (sym_length p div 16 + 1) + 2) div 3)"

text \<open>
  The key check. Text is decoded as above. The base64 encoding of a term decodes to that
  term, so it is a key when the term has 32 bytes. A token is text of more than 32 bytes'
  worth of base64, and the bytes of a key derivation are taken not to be base64 text.
\<close>

fun sym_valid_key :: "sym_bytes \<Rightarrow> bool" where
  "sym_valid_key (Utf8 s) = (b64_scan 0 0 0 s = Some 32)"
| "sym_valid_key (Literal s) = (b64_scan 0 0 0 (ustr s) = Some 32)"
| "sym_valid_key (B64 b) = (sym_length b = 32)"
| "sym_valid_key (Pbkdf2 h p s n) = False"
| "sym_valid_key (Token k r p) = False"

fun sym_decode :: "sym_bytes \<Rightarrow> py_error + str" where
  "sym_decode (Utf8 s) = Inr s"
| "sym_decode b = Inl UnicodeError"

fun sym_latin1 :: "sym_bytes \<Rightarrow> str" where
  "sym_latin1 (Utf8 s) = s"
| "sym_latin1 (Literal s) = ustr s"
| "sym_latin1 b = []"

fun sym_decrypt :: "sym_bytes \<Rightarrow> sym_bytes \<Rightarrow> py_error + sym_bytes" where
  "sym_decrypt k (Token k' r bytes) = (if k' = k then Inr bytes else Inl InvalidToken)"
| "sym_decrypt k b = Inl InvalidToken"

definition sym_lib :: "(sym_bytes, nat) crypto_lib" where
  "sym_lib =
     \<lparr>str_encode = (\<lambda>s. if list_ex surrogate s then Inl UnicodeError else Inr (Utf8 s)),
      bytes_decode = sym_decode,
      latin1_decode = sym_latin1,
      bytes_literal = Literal,
      pbkdf2_hmac = Pbkdf2,
      urlsafe_b64encode = B64,
      fernet_valid_key = sym_valid_key,
      fernet_encrypt = Token,
      fernet_decrypt = sym_decrypt\<rparr>"

text \<open>\<open>decrypt(encrypt(data))\<close>, with what \<open>encrypt\<close> draws.\<close>

definition decrypt_encrypt ::
  "('b, 'r) crypto_lib \<Rightarrow> 'b session_encryption \<Rightarrow> 'r \<Rightarrow> str \<Rightarrow> py_error + str" where
  "decrypt_encrypt lib se r data =
     (case encrypt lib se r data of
        Inl e \<Rightarrow> Inl e
      | Inr token \<Rightarrow> decrypt lib se token)"

section \<open>Saving a session (src/auth.py, AuthManager._save_session)\<close>

text \<open>
  The files of the world: a path has a content and, once \<open>os.chmod\<close> has set it, a mode.
  A file holds bytes, or the JSON text that \<open>json.dump\<close> wrote, kept as the value dumped.
\<close>

datatype json = JString str | JBool bool | JObject "(str \<times> json) list"

datatype 'b file_content = Binary 'b | JsonText json

record 'b world =
  files :: "str \<Rightarrow> 'b file_content option"
  modes :: "str \<Rightarrow> nat option"

text \<open>
  What one call meets outside the class: the clock (\<open>datetime.now().isoformat()\<close>), the
  bytes that \<open>loader.save_session_to_file\<close> writes or the exception it raises, the paths
  that \<open>open\<close> for writing or \<open>os.chmod\<close> refuse, and what \<open>Fernet.encrypt\<close> draws.
\<close>

record ('b, 'r) save_io =
  now_isoformat :: str
  loader_save_session :: "py_error + 'b"
  open_fails :: "str \<Rightarrow> py_error option"
  chmod_fails :: "str \<Rightarrow> bool"
  drawn :: 'r

text \<open>The fields of \<open>AuthManager\<close> that \<open>_save_session\<close> reads.\<close>

record 'b auth_manager =
  session_dir :: str
  encrypt_sessions :: bool
  encryption :: "'b session_encryption option"

text \<open>
  The method returns \<open>None\<close> and lets no \<open>Exception\<close> out: an exception raised in its
  \<open>try\<close> block is caught, reported and dropped. The model returns which of the two
  messages the call ended with: \<open>Saved\<close> when the \<open>try\<close> block ran to its end,
  \<open>SaveFailed e\<close> when \<open>e\<close> was raised in it.
\<close>

datatype save_outcome = Saved | SaveFailed py_error

text \<open>\<open>os.chmod(path, 0o600)\<close> inside \<open>try\<close> \<open>except\<close>: a failure changes nothing.\<close>

definition chmod_600 :: "('b, 'r) save_io \<Rightarrow> str \<Rightarrow> 'b world \<Rightarrow> 'b world" where
  "chmod_600 io path w =
     (if chmod_fails io path then w else w\<lparr>modes := (modes w)(path \<mapsto> 384)\<rparr>)"

text \<open>
  The part under \<open>if self.encrypt_sessions and self.encryption\<close>: read the session file,
  encrypt its Latin-1 decoding, write the result back.
\<close>

definition encrypt_session_file ::
  "('b, 'r) crypto_lib \<Rightarrow> ('b, 'r) save_io \<Rightarrow> 'b session_encryption \<Rightarrow> str \<Rightarrow> 'b world
     \<Rightarrow> py_error + 'b world" where
  "encrypt_session_file lib io se session_file_path w =
     (case files w session_file_path of
        Some (Binary session_content) \<Rightarrow>
          (case encrypt lib se (drawn io) (latin1_decode lib session_content) of
             Inl e \<Rightarrow> Inl e
           | Inr encrypted_content \<Rightarrow>
               (case open_fails io session_file_path of
                  Some e \<Rightarrow> Inl e
                | None \<Rightarrow> Inr (w\<lparr>files := (files w)(session_file_path \<mapsto> Binary encrypted_content)\<rparr>)))
      | _ \<Rightarrow> Inl OSError)"

definition save_session ::
  "('b, 'r) crypto_lib \<Rightarrow> ('b, 'r) save_io \<Rightarrow> 'b auth_manager \<Rightarrow> str \<Rightarrow> 'b world
     \<Rightarrow> save_outcome \<times> 'b world" where
  "save_session lib io am user w =
     (let session_data =
            JObject [(ustr ''username'', JString user),
                     (ustr ''timestamp'', JString (now_isoformat io)),
                     (ustr ''encrypted'', JBool (encrypt_sessions am))];
          session_file_path = session_dir am @ ustr ''/session_'' @ user
      in case loader_save_session io of
           Inl e \<Rightarrow> (SaveFailed e, w)
         | Inr cookies \<Rightarrow>
             (let w1 = w\<lparr>files := (files w)(session_file_path \<mapsto> Binary cookies)\<rparr> in
              case (case encryption am of
                      Some se \<Rightarrow>
                        if encrypt_sessions am
                        then encrypt_session_file lib io se session_file_path w1
                        else Inr w1
                    | None \<Rightarrow> Inr w1) of
                Inl e \<Rightarrow> (SaveFailed e, w1)
              | Inr w2 \<Rightarrow>
                  (let w3 = chmod_600 io session_file_path w2;
                       metadata_file = session_dir am @ ustr ''/session.json''
                   in case open_fails io metadata_file of
                        Some e \<Rightarrow> (SaveFailed e, w3)
                      | None \<Rightarrow>
                          (let w4 = w3\<lparr>files := (files w3)(metadata_file \<mapsto> JsonText session_data)\<rparr>
                           in (Saved, chmod_600 io metadata_file w4)))))"


section \<open>Properties of the delay controller\<close>

lemma apply_op_keeps_bounds:
  assumes "min_delay s \<le> current_delay s" and "current_delay s \<le> max_delay s"
    and "0 \<le> current_delay s" and "min_delay s \<le> base_delay s"
    and "base_delay s \<le> max_delay s" and "0 \<le> base_delay s"
  shows "min_delay (apply_op s x) \<le> current_delay (apply_op s x) \<and>
         current_delay (apply_op s x) \<le> max_delay (apply_op s x) \<and>
         0 \<le> current_delay (apply_op s x) \<and>
         min_delay (apply_op s x) \<le> base_delay (apply_op s x) \<and>
         base_delay (apply_op s x) \<le> max_delay (apply_op s x) \<and>
         0 \<le> base_delay (apply_op s x)"
  using assms by (cases x) (auto simp: on_success_def on_error_def reset_def Let_def)

lemma run_ops_keeps_bounds:
  assumes "min_delay s \<le> current_delay s" and "current_delay s \<le> max_delay s"
    and "0 \<le> current_delay s" and "min_delay s \<le> base_delay s"
    and "base_delay s \<le> max_delay s" and "0 \<le> base_delay s"
  shows "delay_in_bounds (run_ops s ops)"
  using assms
proof (induction ops arbitrary: s)
  case Nil
  then show ?case by (simp add: run_ops_def delay_in_bounds_def)
next
  case (Cons x ops)
  have "delay_in_bounds (run_ops (apply_op s x) ops)"
    using apply_op_keeps_bounds [OF Cons.prems, of x] by (intro Cons.IH) simp_all
  then show ?case by (simp add: run_ops_def)
qed

text \<open>
  C1, as stated: every limiter built with \<open>min_delay \<le> base_delay \<le> max_delay\<close> keeps
  \<open>min_delay \<le> current_delay \<le> max_delay\<close>. It fails for a negative delay: built with
  \<open>base_delay = -1\<close>, \<open>min_delay = -1\<close>, \<open>max_delay = 5\<close>, one \<open>on_error(True)\<close>
  doubles the delay to \<open>-2\<close>, below \<open>min_delay\<close>.
\<close>

theorem delay_bounds_negative_counterexample:
  "\<not> ((-1::real) \<le> -1 \<and> (-1::real) \<le> 5 \<longrightarrow>
      delay_in_bounds (run_ops (RateLimiter (-1) (-1) 5) [OnError True]))"
  by (simp add: delay_in_bounds_def run_ops_def RateLimiter_def on_error_def)

text \<open>
  C1, amended: a limiter built with \<open>min_delay \<le> base_delay \<le> max_delay\<close> and a
  base delay that is not negative satisfies \<open>min_delay \<le> current_delay \<le> max_delay\<close>
  when built and after every sequence of \<open>wait\<close>, \<open>on_success\<close>, \<open>on_error\<close> (with
  either classification) and \<open>reset\<close> calls.
\<close>

theorem delay_bounds_invariant:
  "mn \<le> b \<Longrightarrow> b \<le> mx \<Longrightarrow> 0 \<le> b \<Longrightarrow>
     delay_in_bounds (run_ops (RateLimiter b mn mx) ops)"
  by (rule run_ops_keeps_bounds) (simp_all add: RateLimiter_def)

theorem delay_bounds_invariant_witness:
  "(2::real) \<le> 3 \<and> (3::real) \<le> 30 \<and> (0::real) \<le> 3 \<and>
   delay_in_bounds (run_ops (RateLimiter 3 2 30)
      [OnError True, OnError True, OnError True, OnError True, Wait, OnSuccess, Reset, OnError False])"
  using delay_bounds_invariant [of 2 3 30
      "[OnError True, OnError True, OnError True, OnError True, Wait, OnSuccess, Reset, OnError False]"]
  by simp

lemma on_success_fields:
  "current_delay (on_success s) =
     (if success_count s + 1 \<ge> 10 then max (min_delay s) (current_delay s * 0.9)
      else current_delay s)"
  "success_count (on_success s) = (if success_count s + 1 \<ge> 10 then 0 else success_count s + 1)"
  "min_delay (on_success s) = min_delay s"
  by (simp_all add: on_success_def Let_def)

lemma on_success_iter:
  "success_count s = 0 \<Longrightarrow> k < 10 \<Longrightarrow>
     current_delay ((on_success ^^ k) s) = current_delay s \<and>
     success_count ((on_success ^^ k) s) = int k \<and>
     min_delay ((on_success ^^ k) s) = min_delay s"
  by (induction k) (simp_all add: on_success_fields)

text \<open>
  C2: an error sets \<open>success_count\<close> to 0. A call of \<open>on_success\<close> that is not the tenth
  in a row (\<open>success_count < 9\<close> before it) leaves \<open>current_delay\<close> as it is and counts
  the success; the tenth (\<open>success_count = 9\<close> before it) sets \<open>current_delay\<close> to
  \<open>max(min_delay, current_delay * 0.9)\<close> and \<open>success_count\<close> to 0. So from a counter
  of 0, fewer than ten calls leave the delay unchanged, and ten calls decay it once.
\<close>

theorem on_success_decay:
  "success_count (on_error b s0) = 0 \<and>
   (success_count s1 < 9 \<longrightarrow>
      current_delay (on_success s1) = current_delay s1 \<and>
      success_count (on_success s1) = success_count s1 + 1) \<and>
   (success_count s2 = 9 \<longrightarrow>
      current_delay (on_success s2) = max (min_delay s2) (current_delay s2 * 0.9) \<and>
      success_count (on_success s2) = 0) \<and>
   (success_count s3 = 0 \<longrightarrow>
      (\<forall>k<10. current_delay ((on_success ^^ k) s3) = current_delay s3) \<and>
      current_delay ((on_success ^^ 10) s3) = max (min_delay s3) (current_delay s3 * 0.9) \<and>
      success_count ((on_success ^^ 10) s3) = 0)"
proof -
  have a: "success_count (on_error b s0) = 0"
    by (simp add: on_error_def Let_def)
  have d: "current_delay ((on_success ^^ 10) s3) = max (min_delay s3) (current_delay s3 * 0.9) \<and>
      success_count ((on_success ^^ 10) s3) = 0" if "success_count s3 = 0"
  proof -
    have "(on_success ^^ 10) s3 = on_success ((on_success ^^ 9) s3)"
      by (simp add: numeral_eq_Suc)
    with on_success_iter [OF that, of 9] show ?thesis
      by (simp add: on_success_fields)
  qed
  show ?thesis
    using a d on_success_iter [of s3] by (auto simp: on_success_fields)
qed

theorem on_success_decay_witness:
  "success_count (RateLimiter 5 2 10\<lparr>success_count := 3\<rparr>) < 9 \<and>
   current_delay (on_success (RateLimiter 5 2 10\<lparr>success_count := 3\<rparr>)) = 5 \<and>
   success_count (RateLimiter 5 2 10\<lparr>success_count := 9\<rparr>) = 9 \<and>
   current_delay (on_success (RateLimiter 5 2 10\<lparr>success_count := 9\<rparr>)) = 4.5 \<and>
   success_count (RateLimiter 5 2 10) = 0 \<and>
   current_delay ((on_success ^^ 9) (RateLimiter 5 2 10)) = 5 \<and>
   current_delay ((on_success ^^ 10) (RateLimiter 5 2 10)) = 4.5 \<and>
   success_count ((on_success ^^ 10) (RateLimiter 5 2 10)) = 0"
  using on_success_decay [of True "RateLimiter 5 2 10" "RateLimiter 5 2 10\<lparr>success_count := 3\<rparr>"
      "RateLimiter 5 2 10\<lparr>success_count := 9\<rparr>" "RateLimiter 5 2 10"]
  by (simp add: RateLimiter_def)

text \<open>
  C3: \<open>on_error(is_rate_limit=True)\<close> sets \<open>current_delay\<close> to
  \<open>min(max_delay, current_delay * 2.0)\<close>, \<open>on_error(is_rate_limit=False)\<close> to
  \<open>min(max_delay, current_delay * 1.2)\<close>; both set \<open>success_count\<close> to 0 and add 1 to
  \<open>error_count\<close>, and change nothing else.
\<close>

theorem on_error_growth:
  "on_error True s =
     s\<lparr>current_delay := min (max_delay s) (current_delay s * 2.0),
       success_count := 0, error_count := error_count s + 1\<rparr> \<and>
   on_error False s =
     s\<lparr>current_delay := min (max_delay s) (current_delay s * 1.2),
       success_count := 0, error_count := error_count s + 1\<rparr>"
  by (simp add: on_error_def Let_def)

section \<open>Properties of the exponential backoff\<close>

lemma calculate_rate_limit_delay_returns:
  "float_pow multiplier errors = Inr p \<Longrightarrow>
     calculate_rate_limit_delay errors base multiplier maximum =
       Inr (min (base * multiplier powi errors) maximum)"
  by (auto simp: calculate_rate_limit_delay_def float_pow_def Let_def split: if_splits)

lemma pow_1_5_2000_overflows: "(2::real) ^ 1024 \<le> (3 / 2) ^ 2000"
proof -
  have e1: "(2::real) ^ 1024 = (2 ^ 4) ^ 256"
    unfolding power_mult [symmetric] by simp
  have e2: "((2::real) ^ 4) ^ 256 \<le> ((3 / 2) ^ 7) ^ 256"
    by (rule power_mono) (simp_all add: power_divide)
  have e3: "((3 / 2 :: real) ^ 7) ^ 256 = (3 / 2) ^ 1792"
    unfolding power_mult [symmetric] by simp
  have e4: "(3 / 2 :: real) ^ 1792 \<le> (3 / 2) ^ 2000"
    by (rule power_increasing) simp_all
  have "(2::real) ^ 1024 \<le> ((3 / 2) ^ 7) ^ 256"
    unfolding e1 by (rule e2)
  then have "(2::real) ^ 1024 \<le> (3 / 2) ^ 1792"
    unfolding e3 .
  then show ?thesis using e4 by (rule order_trans)
qed

text \<open>
  C4 says that the function returns \<open>min(base_delay * multiplier ^ error_count, max_delay)\<close>
  for every \<open>error_count\<close>. With the defaults and \<open>error_count = 2000\<close> that value is
  the cap, 300.0; the code raises \<open>OverflowError\<close> from \<open>1.5 ** 2000\<close> before the cap
  is applied.
\<close>

theorem calculate_rate_limit_delay_overflow:
  "calculate_rate_limit_delay_default 2000 = Inl OverflowError \<and>
   min (3.0 * (1.5::real) ^ 2000) 300.0 = 300.0"
proof -
  have big: "(2::real) ^ 1024 \<le> (3 / 2) ^ 2000" by (rule pow_1_5_2000_overflows)
  have "(100::real) \<le> 2 ^ 1024"
    using power_increasing [of 7 1024 "2::real"] by simp
  with big have "(100::real) \<le> (3 / 2) ^ 2000" by linarith
  then have cap: "min (3.0 * (1.5::real) ^ 2000) 300.0 = 300.0" by simp
  have "\<bar>(3 / 2 :: real) powi 2000\<bar> \<ge> 2 ^ 1024"
    using big by simp
  then have "calculate_rate_limit_delay_default 2000 = Inl OverflowError"
    by (simp add: calculate_rate_limit_delay_default_def calculate_rate_limit_delay_def float_pow_def)
  with cap show ?thesis by simp
qed

section \<open>Properties of the string operations\<close>

lemma dropWhile_snoc_keeps: "\<not> P x \<Longrightarrow> \<exists>ys. dropWhile P (zs @ [x]) = ys @ [x]"
  by (induction zs) auto

lemma strip_where_hd: "strip_where P s \<noteq> [] \<Longrightarrow> \<not> P (hd (strip_where P s))"
proof -
  assume ne: "strip_where P s \<noteq> []"
  have t: "dropWhile P s \<noteq> []"
    using ne unfolding strip_where_def by (metis dropWhile.simps(1) rev.simps(1))
  then obtain x xs where x: "dropWhile P s = x # xs" by (cases "dropWhile P s") auto
  from hd_dropWhile [OF t] x have nP: "\<not> P x" by simp
  from dropWhile_snoc_keeps [of P x "rev xs"] nP obtain ys
    where "dropWhile P (rev xs @ [x]) = ys @ [x]" by blast
  then have "strip_where P s = x # rev ys"
    by (simp add: strip_where_def x)
  with nP show ?thesis by simp
qed

lemma strip_where_last: "strip_where P s \<noteq> [] \<Longrightarrow> \<not> P (last (strip_where P s))"
  by (simp add: strip_where_def last_rev hd_dropWhile)

lemma strip_where_idem: "strip_where P (strip_where P s) = strip_where P s"
proof (cases "strip_where P s = []")
  case True
  have "strip_where P [] = []" by (simp add: strip_where_def)
  with True show ?thesis by simp
next
  case False
  let ?t = "strip_where P s"
  have a: "dropWhile P ?t = ?t"
    using strip_where_hd [OF False] False by (cases ?t) auto
  have "\<not> P (hd (rev ?t))"
    using strip_where_last [OF False] False by (simp add: hd_rev)
  then have b: "dropWhile P (rev ?t) = rev ?t"
    using False by (cases "rev ?t") auto
  show ?thesis
    unfolding strip_where_def [of P ?t] a b by simp
qed

lemma strip_idem: "strip (strip s) = strip s"
  by (simp add: strip_def strip_where_idem)

lemma username_char_iff:
  "username_char c \<longleftrightarrow>
     c \<in> set (ustr ''abcdefghijklmnopqrstuvwxyzABCDEFGHIJKLMNOPQRSTUVWXYZ0123456789_.'')"
  unfolding username_char_def ustr_def by (simp, arith)

lemma re_match_username_iff:
  assumes "t = [] \<or> last t \<noteq> 10"
  shows "re_match_username t \<longleftrightarrow> t \<noteq> [] \<and> (\<forall>c\<in>set t. username_char c)"
proof -
  have "dropWhile username_char t \<noteq> [10]"
  proof
    assume d: "dropWhile username_char t = [10]"
    have "t = takeWhile username_char t @ dropWhile username_char t" by simp
    with d have "t = takeWhile username_char t @ [10]" by simp
    then have "t \<noteq> [] \<and> last t = 10" by (metis last_snoc snoc_eq_iff_butlast)
    with assms show False by simp
  qed
  then have "re_match_username t \<longleftrightarrow>
      takeWhile username_char t \<noteq> [] \<and> dropWhile username_char t = []"
    by (simp add: re_match_username_def)
  also have "\<dots> \<longleftrightarrow> t \<noteq> [] \<and> (\<forall>c\<in>set t. username_char c)"
    by (cases t) (auto simp: dropWhile_eq_Nil_conv)
  finally show ?thesis .
qed

lemmas str_eval = ustr_def strip_def strip_where_def isspace_def re_match_username_def
  username_char_def startswith_def endswith_def lower_def validate_username_def
  extract_username_from_url_def split_def skipped_line_def valid_profiles_def
  invalid_line_numbers_def Let_def

section \<open>Properties of the user-name validation\<close>

text \<open>
  C9: \<open>validate_username(s)\<close> raises \<open>ValueError\<close> or returns \<open>s.strip().lower()\<close>, and
  it returns exactly when the stripped input has 1 to 30 characters, all of them among
  \<open>a-z\<close>, \<open>A-Z\<close>, \<open>0-9\<close>, \<open>_\<close> and \<open>.\<close>, and neither starts nor ends with a dot.
\<close>

theorem validate_username_spec:
  "validate_username s =
     (if 1 \<le> length (strip s) \<and> length (strip s) \<le> 30 \<and>
         set (strip s) \<subseteq>
           set (ustr ''abcdefghijklmnopqrstuvwxyzABCDEFGHIJKLMNOPQRSTUVWXYZ0123456789_.'') \<and>
         \<not> startswith (strip s) (ustr ''.'') \<and> \<not> endswith (strip s) (ustr ''.'')
      then Inr (lower (strip s)) else Inl ValueError)"
proof -
  have sp: "strip s = [] \<or> last (strip s) \<noteq> 10"
    using strip_where_last [of isspace s] by (auto simp: strip_def isspace_def)
  have "re_match_username (strip s) \<longleftrightarrow>
      strip s \<noteq> [] \<and>
      set (strip s) \<subseteq> set (ustr ''abcdefghijklmnopqrstuvwxyzABCDEFGHIJKLMNOPQRSTUVWXYZ0123456789_.'')"
    unfolding re_match_username_iff [OF sp] using username_char_iff by blast
  moreover have "s = [] \<Longrightarrow> strip s = []"
    by (simp add: strip_def strip_where_def)
  ultimately show ?thesis
    unfolding validate_username_def Let_def by (cases "strip s = []") (auto simp: Suc_le_eq)
qed

theorem validate_username_spec_witness:
  "validate_username (ustr ''  John_Doe.99 '') = Inr (ustr ''john_doe.99'') \<and>
   validate_username (ustr ''.john'') = Inl ValueError \<and>
   validate_username (ustr ''user name'') = Inl ValueError \<and>
   validate_username (ustr ''aaaaaaaaaaaaaaaaaaaaaaaaaaaaaaa'') = Inl ValueError"
  unfolding validate_username_spec by (simp add: str_eval)

section \<open>Properties of the profile list parser\<close>




lemma skipped_line_strip: "skipped_line (strip l) = skipped_line l"
  by (simp add: skipped_line_def strip_idem)










section \<open>Properties of the batch loop\<close>










section \<open>Properties of the session encryption\<close>

lemma machine_passphrase_eq:
  "ustr ''ig_downloader_'' @
     getenv_or env (ustr ''USER'') (getenv_or env (ustr ''USERNAME'') (ustr ''default'')) @
     ustr ''_secret'' = machine_passphrase env"
  by (simp add: machine_passphrase_def getenv_or_def split: option.splits)

lemma derive_key_cases:
  "derive_key lib env password =
     (case password of
        Some p \<Rightarrow> pbkdf2_key lib p
      | None \<Rightarrow>
          (case env (ustr ''SESSION_ENCRYPTION_KEY'') of
             Some env_key \<Rightarrow>
               if env_key \<noteq> [] then str_encode lib env_key
               else pbkdf2_key lib (machine_passphrase env)
           | None \<Rightarrow> pbkdf2_key lib (machine_passphrase env)))"
  unfolding derive_key_def machine_passphrase_eq
  by (simp add: pbkdf2_key_def Let_def split: option.splits sum.splits)

lemmas auth_eval = sym_lib_def SessionEncryption_def derive_key_def pbkdf2_key_def
  machine_passphrase_def getenv_or_def encrypt_def decrypt_def decrypt_encrypt_def Let_def
  surrogate_def ustr_def b64_char_def utf8_len_def digest_size_def

lemma sym_lib_contracts: "fernet_round_trip sym_lib" "codec_round_trip sym_lib"
  by (auto simp: fernet_round_trip_def codec_round_trip_def sym_lib_def split: if_splits)

text \<open>
  C5, as stated: with no password the key is derived, by the same key derivation, from a
  passphrase made from the machine. It is not when \<open>SESSION_ENCRYPTION_KEY\<close> is set: the
  key is then the value of that variable, encoded, and no key derivation produces it.
\<close>

theorem session_key_env_counterexample:
  "SessionEncryption sym_lib
     (\<lambda>n. if n = ustr ''SESSION_ENCRYPTION_KEY''
          then Some (ustr ''AAAAAAAAAAAAAAAAAAAAAAAAAAAAAAAAAAAAAAAAAAA='') else None) None =
     Inr \<lparr>key = Utf8 (ustr ''AAAAAAAAAAAAAAAAAAAAAAAAAAAAAAAAAAAAAAAAAAA=''),
          fernet = Utf8 (ustr ''AAAAAAAAAAAAAAAAAAAAAAAAAAAAAAAAAAAAAAAAAAA='')\<rparr> \<and>
   (\<forall>passphrase. pbkdf2_key sym_lib passphrase \<noteq>
      Inr (Utf8 (ustr ''AAAAAAAAAAAAAAAAAAAAAAAAAAAAAAAAAAAAAAAAAAA='')))"
proof -
  have "\<forall>passphrase. pbkdf2_key sym_lib passphrase \<noteq>
      Inr (Utf8 (ustr ''AAAAAAAAAAAAAAAAAAAAAAAAAAAAAAAAAAAAAAAAAAA=''))"
    by (simp add: pbkdf2_key_def sym_lib_def)
  moreover have "SessionEncryption sym_lib
     (\<lambda>n. if n = ustr ''SESSION_ENCRYPTION_KEY''
          then Some (ustr ''AAAAAAAAAAAAAAAAAAAAAAAAAAAAAAAAAAAAAAAAAAA='') else None) None =
     Inr \<lparr>key = Utf8 (ustr ''AAAAAAAAAAAAAAAAAAAAAAAAAAAAAAAAAAAAAAAAAAA=''),
          fernet = Utf8 (ustr ''AAAAAAAAAAAAAAAAAAAAAAAAAAAAAAAAAAAAAAAAAAA='')\<rparr>"
    by (simp add: auth_eval)
  ultimately show ?thesis by blast
qed

text \<open>
  C5, amended: the key of every \<open>SessionEncryption\<close> instance is the one its \<open>Fernet\<close>
  object holds. Built with a password, it is the url-safe base64 encoding of
  PBKDF2-HMAC-SHA256 of the encoded password with the salt
  \<open>b'instagram_downloader_salt_v1'\<close> and 100000 iterations. Built with no password, it
  is the encoded value of \<open>SESSION_ENCRYPTION_KEY\<close> when that variable is set and not
  empty, used as it is; otherwise it is derived in the same way as from a password from
  the passphrase \<open>ig_downloader_<user>_secret\<close>, where \<open><user>\<close> is \<open>USER\<close>, else
  \<open>USERNAME\<close>, else \<open>default\<close>.
\<close>

theorem session_key_derivation:
  assumes "SessionEncryption lib env password = Inr se"
  shows "fernet se = key se \<and>
         (case password of
            Some p \<Rightarrow> pbkdf2_key lib p = Inr (key se)
          | None \<Rightarrow>
              (case env (ustr ''SESSION_ENCRYPTION_KEY'') of
                 Some env_key \<Rightarrow>
                   if env_key \<noteq> [] then str_encode lib env_key = Inr (key se)
                   else pbkdf2_key lib (machine_passphrase env) = Inr (key se)
               | None \<Rightarrow> pbkdf2_key lib (machine_passphrase env) = Inr (key se)))"
  using assms unfolding SessionEncryption_def derive_key_cases
  by (auto split: option.splits sum.splits if_splits)

theorem session_key_derivation_witness:
  "SessionEncryption sym_lib (\<lambda>n. if n = ustr ''USER'' then Some (ustr ''alice'') else None)
     (Some (ustr ''hunter2'')) =
     Inr \<lparr>key = B64 (Pbkdf2 ''sha256'' (Utf8 (ustr ''hunter2''))
                   (Literal ''instagram_downloader_salt_v1'') 100000),
          fernet = B64 (Pbkdf2 ''sha256'' (Utf8 (ustr ''hunter2''))
                   (Literal ''instagram_downloader_salt_v1'') 100000)\<rparr> \<and>
   pbkdf2_key sym_lib (ustr ''hunter2'') =
     Inr (B64 (Pbkdf2 ''sha256'' (Utf8 (ustr ''hunter2''))
            (Literal ''instagram_downloader_salt_v1'') 100000)) \<and>
   SessionEncryption sym_lib (\<lambda>n. if n = ustr ''USER'' then Some (ustr ''alice'') else None) None =
     Inr \<lparr>key = B64 (Pbkdf2 ''sha256'' (Utf8 (ustr ''ig_downloader_alice_secret''))
                   (Literal ''instagram_downloader_salt_v1'') 100000),
          fernet = B64 (Pbkdf2 ''sha256'' (Utf8 (ustr ''ig_downloader_alice_secret''))
                   (Literal ''instagram_downloader_salt_v1'') 100000)\<rparr> \<and>
   pbkdf2_key sym_lib
     (machine_passphrase (\<lambda>n. if n = ustr ''USER'' then Some (ustr ''alice'') else None)) =
     Inr (B64 (Pbkdf2 ''sha256'' (Utf8 (ustr ''ig_downloader_alice_secret''))
            (Literal ''instagram_downloader_salt_v1'') 100000))"
proof -
  let ?env = "\<lambda>n. if n = ustr ''USER'' then Some (ustr ''alice'') else None"
  let ?k1 = "B64 (Pbkdf2 ''sha256'' (Utf8 (ustr ''hunter2''))
                   (Literal ''instagram_downloader_salt_v1'') 100000)"
  let ?k2 = "B64 (Pbkdf2 ''sha256'' (Utf8 (ustr ''ig_downloader_alice_secret''))
                   (Literal ''instagram_downloader_salt_v1'') 100000)"
  have a: "SessionEncryption sym_lib ?env (Some (ustr ''hunter2'')) = Inr \<lparr>key = ?k1, fernet = ?k1\<rparr>"
    by (simp add: auth_eval)
  have b: "SessionEncryption sym_lib ?env None = Inr \<lparr>key = ?k2, fernet = ?k2\<rparr>"
    by (simp add: auth_eval)
  have u: "?env (ustr ''SESSION_ENCRYPTION_KEY'') = None"
    by (simp add: ustr_def)
  from session_key_derivation [OF a] have "pbkdf2_key sym_lib (ustr ''hunter2'') = Inr ?k1"
    by simp
  moreover from session_key_derivation [OF b] u
  have "pbkdf2_key sym_lib (machine_passphrase ?env) = Inr ?k2"
    by simp
  ultimately show ?thesis using a b by simp
qed

text \<open>
  C8, as stated: \<open>decrypt(encrypt(data)) = data\<close> for every string. \<open>encrypt\<close> starts
  with \<open>data.encode()\<close>, and UTF-8 encodes no surrogate code point: for the one-character
  string U+D800 \<open>encrypt\<close> raises and there is nothing to decrypt.
\<close>

theorem encrypt_surrogate_counterexample:
  "SessionEncryption sym_lib (\<lambda>n. None) (Some (ustr ''hunter2'')) =
     Inr \<lparr>key = B64 (Pbkdf2 ''sha256'' (Utf8 (ustr ''hunter2''))
                   (Literal ''instagram_downloader_salt_v1'') 100000),
          fernet = B64 (Pbkdf2 ''sha256'' (Utf8 (ustr ''hunter2''))
                   (Literal ''instagram_downloader_salt_v1'') 100000)\<rparr> \<and>
   decrypt_encrypt sym_lib
     \<lparr>key = B64 (Pbkdf2 ''sha256'' (Utf8 (ustr ''hunter2''))
                   (Literal ''instagram_downloader_salt_v1'') 100000),
      fernet = B64 (Pbkdf2 ''sha256'' (Utf8 (ustr ''hunter2''))
                   (Literal ''instagram_downloader_salt_v1'') 100000)\<rparr>
     0 [55296] = Inl UnicodeError"
  by (simp add: auth_eval)

text \<open>
  C8, amended: for every password (\<open>None\<close> too, in a fixed environment) with which a
  \<open>SessionEncryption\<close> can be built, and every string that \<open>str.encode()\<close> accepts,
  \<open>decrypt(encrypt(data)) = data\<close>, whatever \<open>encrypt\<close> draws. The library is held to
  its contracts: Fernet decrypts what it encrypted under the same valid key, and decoding
  undoes encoding.
\<close>

theorem encrypt_decrypt_round_trip:
  assumes "fernet_round_trip lib" and "codec_round_trip lib"
    and "SessionEncryption lib env password = Inr se"
    and "str_encode lib data = Inr bytes"
  shows "decrypt_encrypt lib se r data = Inr data"
proof -
  from assms(3) have valid: "fernet_valid_key lib (fernet se)"
    by (auto simp: SessionEncryption_def split: sum.splits if_splits)
  have e: "encrypt lib se r data = Inr (fernet_encrypt lib (fernet se) r bytes)"
    using assms(4) by (simp add: encrypt_def)
  have "fernet_decrypt lib (fernet se) (fernet_encrypt lib (fernet se) r bytes) = Inr bytes"
    using assms(1) valid unfolding fernet_round_trip_def by blast
  moreover have "bytes_decode lib bytes = Inr data"
    using assms(2,4) unfolding codec_round_trip_def by blast
  ultimately have "decrypt lib se (fernet_encrypt lib (fernet se) r bytes) = Inr data"
    by (simp add: decrypt_def)
  with e show ?thesis by (simp add: decrypt_encrypt_def)
qed

theorem encrypt_decrypt_round_trip_witness:
  "fernet_round_trip sym_lib \<and> codec_round_trip sym_lib \<and>
   SessionEncryption sym_lib (\<lambda>n. None) None =
     Inr \<lparr>key = B64 (Pbkdf2 ''sha256'' (Utf8 (ustr ''ig_downloader_default_secret''))
                   (Literal ''instagram_downloader_salt_v1'') 100000),
          fernet = B64 (Pbkdf2 ''sha256'' (Utf8 (ustr ''ig_downloader_default_secret''))
                   (Literal ''instagram_downloader_salt_v1'') 100000)\<rparr> \<and>
   str_encode sym_lib (ustr ''sessionid=42'') = Inr (Utf8 (ustr ''sessionid=42'')) \<and>
   decrypt_encrypt sym_lib
     \<lparr>key = B64 (Pbkdf2 ''sha256'' (Utf8 (ustr ''ig_downloader_default_secret''))
                   (Literal ''instagram_downloader_salt_v1'') 100000),
      fernet = B64 (Pbkdf2 ''sha256'' (Utf8 (ustr ''ig_downloader_default_secret''))
                   (Literal ''instagram_downloader_salt_v1'') 100000)\<rparr>
     7 (ustr ''sessionid=42'') = Inr (ustr ''sessionid=42'')"
proof -
  let ?k = "B64 (Pbkdf2 ''sha256'' (Utf8 (ustr ''ig_downloader_default_secret''))
                   (Literal ''instagram_downloader_salt_v1'') 100000)"
  have a: "SessionEncryption sym_lib (\<lambda>n. None) None = Inr \<lparr>key = ?k, fernet = ?k\<rparr>"
    by (simp add: auth_eval)
  have b: "str_encode sym_lib (ustr ''sessionid=42'') = Inr (Utf8 (ustr ''sessionid=42''))"
    by (simp add: auth_eval)
  from encrypt_decrypt_round_trip [OF sym_lib_contracts a b, of 7] a b sym_lib_contracts
  show ?thesis by simp
qed

section \<open>Properties of saving a session\<close>

lemma chmod_600_files: "files (chmod_600 io path w) = files w"
  by (simp add: chmod_600_def)

text \<open>
  C6: when a call of \<open>_save_session(username)\<close> completes without error, that is, when
  nothing raises in its \<open>try\<close> block, the file \<open>session.json\<close> in the session directory
  holds the JSON object with exactly the keys \<open>username\<close>, \<open>timestamp\<close> and
  \<open>encrypted\<close>: the user name given, the time of the call and the manager's
  \<open>encrypt_sessions\<close> flag.
\<close>

theorem save_session_writes_metadata:
  assumes "save_session lib io am user w = (Saved, w')"
  shows "files w' (session_dir am @ ustr ''/session.json'') =
           Some (JsonText (JObject [(ustr ''username'', JString user),
                                    (ustr ''timestamp'', JString (now_isoformat io)),
                                    (ustr ''encrypted'', JBool (encrypt_sessions am))]))"
  using assms unfolding save_session_def Let_def
  by (auto simp: chmod_600_files split: sum.splits option.splits if_splits)

theorem save_session_writes_metadata_witness:
  "fst (save_session sym_lib
     \<lparr>now_isoformat = ustr ''2025-01-01T12:00:00'', loader_save_session = Inr (Literal ''cookies''),
      open_fails = (\<lambda>p. None), chmod_fails = (\<lambda>p. False), drawn = 7\<rparr>
     \<lparr>session_dir = ustr ''data/sessions'', encrypt_sessions = True,
      encryption = Some \<lparr>key = B64 (Literal ''k''), fernet = B64 (Literal ''k'')\<rparr>\<rparr>
     (ustr ''alice'') \<lparr>files = (\<lambda>p. None), modes = (\<lambda>p. None)\<rparr>) = Saved \<and>
   files (snd (save_session sym_lib
     \<lparr>now_isoformat = ustr ''2025-01-01T12:00:00'', loader_save_session = Inr (Literal ''cookies''),
      open_fails = (\<lambda>p. None), chmod_fails = (\<lambda>p. False), drawn = 7\<rparr>
     \<lparr>session_dir = ustr ''data/sessions'', encrypt_sessions = True,
      encryption = Some \<lparr>key = B64 (Literal ''k''), fernet = B64 (Literal ''k'')\<rparr>\<rparr>
     (ustr ''alice'') \<lparr>files = (\<lambda>p. None), modes = (\<lambda>p. None)\<rparr>))
     (ustr ''data/sessions/session.json'') =
     Some (JsonText (JObject [(ustr ''username'', JString (ustr ''alice'')),
                              (ustr ''timestamp'', JString (ustr ''2025-01-01T12:00:00'')),
                              (ustr ''encrypted'', JBool True)]))"
proof -
  let ?io = "\<lparr>now_isoformat = ustr ''2025-01-01T12:00:00'',
      loader_save_session = Inr (Literal ''cookies''),
      open_fails = (\<lambda>p. None), chmod_fails = (\<lambda>p. False), drawn = 7::nat\<rparr>"
  let ?am = "\<lparr>session_dir = ustr ''data/sessions'', encrypt_sessions = True,
      encryption = Some \<lparr>key = B64 (Literal ''k''), fernet = B64 (Literal ''k'')\<rparr>\<rparr>"
  let ?x = "save_session sym_lib ?io ?am (ustr ''alice'')
      \<lparr>files = (\<lambda>p. None), modes = (\<lambda>p. None)\<rparr>"
  have o: "fst ?x = Saved"
    by (simp add: save_session_def encrypt_session_file_def chmod_600_def auth_eval)
  then have "?x = (Saved, snd ?x)"
    by (metis prod.collapse)
  from save_session_writes_metadata [OF this] o show ?thesis
    by (simp add: ustr_def)
qed

end
